theory Spec2Isabelle
  imports Complex_Main "HOL-Library.AList"
begin

section \<open>Python values used by the monitor\<close>

text \<open>
  Latency, packet loss and wall-clock time are Python floats. A float is modelled as a
  real number or one of the three special values; rounding of finite results is not
  modelled. The special values matter: an interface without data has latency
  \<open>float('inf')\<close>, and comparisons with \<open>inf\<close> and \<open>nan\<close> decide health.
\<close>

datatype pyfloat = Fin real | PInf | NInf | NaN

fun fl_add :: "pyfloat \<Rightarrow> pyfloat \<Rightarrow> pyfloat" where
  "fl_add (Fin a) (Fin b) = Fin (a + b)"
| "fl_add NaN _ = NaN"
| "fl_add _ NaN = NaN"
| "fl_add PInf NInf = NaN"
| "fl_add NInf PInf = NaN"
| "fl_add PInf _ = PInf"
| "fl_add _ PInf = PInf"
| "fl_add NInf _ = NInf"
| "fl_add _ NInf = NInf"

text \<open>\<open>x / len(xs)\<close>: every division of the source is guarded by a non-empty list, so the
  divisor is a positive integer.\<close>

fun fl_div_len :: "pyfloat \<Rightarrow> nat \<Rightarrow> pyfloat" where
  "fl_div_len (Fin a) n = Fin (a / real n)"
| "fl_div_len PInf n = PInf"
| "fl_div_len NInf n = NInf"
| "fl_div_len NaN n = NaN"

text \<open>\<open>x < c\<close> for a float \<open>x\<close> and a finite number \<open>c\<close>.\<close>

fun fl_less :: "pyfloat \<Rightarrow> real \<Rightarrow> bool" where
  "fl_less (Fin a) c = (a < c)"
| "fl_less PInf c = False"
| "fl_less NInf c = True"
| "fl_less NaN c = False"

text \<open>\<open>sum(xs)\<close> starts from the integer 0 and adds from the left.\<close>

definition py_sum :: "pyfloat list \<Rightarrow> pyfloat" where
  "py_sum xs = foldl fl_add (Fin 0) xs"

text \<open>\<open>sum(xs) / len(xs) if xs else d\<close>\<close>

definition py_mean :: "pyfloat list \<Rightarrow> pyfloat \<Rightarrow> pyfloat" where
  "py_mean xs d = (if xs \<noteq> [] then fl_div_len (py_sum xs) (length xs) else d)"

section \<open>Configuration (config/router\_config.py)\<close>

record thresholds =
  latency_max :: real
  packet_loss_max :: real
  check_interval :: real
  failover_timeout :: real
  consecutive_failures_threshold :: int

text \<open>The module globals \<open>INTERFACES\<close>, \<open>PING_TARGETS\<close> and \<open>THRESHOLDS\<close> are read by every
  function below; they are passed as one configuration value.\<close>

record config =
  INTERFACES_primary :: string
  INTERFACES_secondary :: string
  PING_TARGETS :: "string list"
  THRESHOLDS :: thresholds

definition router_config :: config where
  "router_config =
     \<lparr>INTERFACES_primary = ''ether1'', INTERFACES_secondary = ''ether2'',
      PING_TARGETS = [''8.8.8.8'', ''1.1.1.1''],
      THRESHOLDS = \<lparr>latency_max = 100, packet_loss_max = 5, check_interval = 30,
                    failover_timeout = 60, consecutive_failures_threshold = 3\<rparr>\<rparr>"

section \<open>Interface metrics and health (src/router/interfaces.py)\<close>

text \<open>The metrics dictionary built by \<open>get_interface_metrics\<close>. The key \<open>timestamp\<close> is
  optional because \<open>collect_metrics\<close> tests for it.\<close>

record metrics =
  interface :: string
  status :: string
  latency :: pyfloat
  packet_loss :: pyfloat
  timestamp :: "real option"

text \<open>\<open>metrics\<close> is \<open>None\<close> when \<open>dict.get\<close> finds no entry.\<close>

definition is_interface_healthy :: "thresholds \<Rightarrow> metrics option \<Rightarrow> bool" where
  "is_interface_healthy th metrics =
     (case metrics of
        None \<Rightarrow> False
      | Some m \<Rightarrow>
          if status m = ''down'' then False
          else (let latency_ok = fl_less (latency m) (latency_max th);
                    packet_loss_ok = fl_less (packet_loss m) (packet_loss_max th)
                in latency_ok \<and> packet_loss_ok))"

section \<open>The router client (src/router/mikrotik.py) and the outside world\<close>

text \<open>
  \<open>InterfaceManager\<close> receives its router client as a constructor argument and calls three
  of its methods; \<open>NetworkMonitor\<close> calls \<open>store_metrics\<close> of its persistence object, and
  both modules read the clock. The device, the database and the clock form the outside
  world \<open>'w\<close>; each call takes the world and returns it, so that the order of the calls is
  part of the model. None of these calls raises: the client catches every exception and
  returns \<open>None\<close>, \<open>False\<close> or an empty result instead. \<open>store_metrics\<close> runs in a
  \<open>try\<close> block of which the file shows the beginning only; it is taken to catch its
  exceptions as the client does, and its result is not used by the caller.
\<close>

type_synonym iface_dict = "(string \<times> string) list"

text \<open>One element of the ping command's answer: a dictionary with a \<open>time\<close> entry that
  \<open>float()\<close> accepts, with one that \<open>float()\<close> rejects, or without a \<open>time\<close> entry.\<close>

datatype ping_reply = Reply_time pyfloat | Reply_bad_time | Reply_no_time

record ping_result =
  pr_interface :: string
  pr_target :: string
  sent :: int
  received :: int
  pr_packet_loss :: pyfloat
  avg_latency :: pyfloat

text \<open>
  \<open>api_ping address interface count\<close> is the call \<open>self.api.path('ping')(...)\<close> together
  with the connection attempt before it: \<open>None\<close> when the connection fails or the call
  raises, otherwise the list of replies.
\<close>

record 'w router_env =
  get_interface_status :: "string \<Rightarrow> 'w \<Rightarrow> iface_dict option \<times> 'w"
  api_ping :: "string \<Rightarrow> string \<Rightarrow> int \<Rightarrow> 'w \<Rightarrow> ping_reply list option \<times> 'w"
  update_routing_priority :: "string \<Rightarrow> int \<Rightarrow> 'w \<Rightarrow> bool \<times> 'w"
  time_time :: "'w \<Rightarrow> real \<times> 'w"
  store_metrics :: "metrics \<Rightarrow> 'w \<Rightarrow> 'w"

text \<open>\<open>'time' in r\<close>\<close>

fun has_time :: "ping_reply \<Rightarrow> bool" where
  "has_time Reply_no_time = False"
| "has_time (Reply_time t) = True"
| "has_time Reply_bad_time = True"

text \<open>\<open>[float(r.get('time', 0)) for r in results if 'time' in r]\<close>; \<open>None\<close> when
  \<open>float()\<close> raises, which the enclosing \<open>try\<close> turns into the result \<open>None\<close>.\<close>

fun float_times :: "ping_reply list \<Rightarrow> pyfloat list option" where
  "float_times [] = Some []"
| "float_times (Reply_no_time # rs) = float_times rs"
| "float_times (Reply_bad_time # rs) = None"
| "float_times (Reply_time t # rs) =
     (case float_times rs of None \<Rightarrow> None | Some ts \<Rightarrow> Some (t # ts))"

text \<open>\<open>MikrotikClient.check_interface_connectivity\<close>. The messages of this module's own
  logger are not part of the model.\<close>

definition check_interface_connectivity ::
  "'w router_env \<Rightarrow> string \<Rightarrow> string \<Rightarrow> int \<Rightarrow> 'w \<Rightarrow> ping_result option \<times> 'w" where
  "check_interface_connectivity env interface_name target count w =
     (case api_ping env target interface_name count w of
        (None, w1) \<Rightarrow> (None, w1)
      | (Some results, w1) \<Rightarrow>
          (let n_sent = count;
               n_received = int (length (filter has_time results));
               loss =
                 (if n_sent > 0
                  then Fin ((real_of_int (n_sent - n_received) / real_of_int n_sent) * 100)
                  else Fin 0)
           in case float_times results of
                None \<Rightarrow> (None, w1)
              | Some time_list \<Rightarrow>
                  (Some \<lparr>pr_interface = interface_name, pr_target = target, sent = n_sent,
                         received = n_received, pr_packet_loss = loss,
                         avg_latency = py_mean time_list PInf\<rparr>, w1)))"

section \<open>State of the two objects and the log\<close>

datatype log_level = DEBUG | INFO | WARNING | ERROR

text \<open>One constructor for each message written by interfaces.py and collector.py, with the
  values the message interpolates.\<close>

datatype log_message =
    Interface_down string
  | Performing_failover string string
  | Failover_successful string
  | Failover_failed string
  | Switching_back
  | Both_down
  | Interface_failure string int pyfloat pyfloat
  | Healthy_again string
  | Interface_metrics real string pyfloat pyfloat

record interface_manager =
  primary_interface :: string
  secondary_interface :: string
  current_active :: string
  failover_timestamp :: "real option"

text \<open>\<open>persistence\<close> records whether a persistence object was given; the database itself is
  part of the world. The thread fields \<open>is_running\<close> and \<open>monitor_thread\<close> are left out.\<close>

record network_monitor =
  metrics_history :: "string \<rightharpoonup> metrics list"
  consecutive_failures :: "string \<rightharpoonup> int"
  persistence :: bool

record 'w system =
  manager :: interface_manager
  monitor :: network_monitor
  logged :: "(log_level \<times> log_message) list"
  world :: 'w

definition init_system :: "config \<Rightarrow> bool \<Rightarrow> 'w \<Rightarrow> 'w system" where
  "init_system cfg with_persistence w =
     \<lparr>manager = \<lparr>primary_interface = INTERFACES_primary cfg,
                 secondary_interface = INTERFACES_secondary cfg,
                 current_active = INTERFACES_primary cfg,
                 failover_timestamp = None\<rparr>,
      monitor = \<lparr>metrics_history = Map.empty, consecutive_failures = Map.empty,
                 persistence = with_persistence\<rparr>,
      logged = [],
      world = w\<rparr>"

definition log_record :: "log_level \<Rightarrow> log_message \<Rightarrow> 'w system \<Rightarrow> 'w system" where
  "log_record lv msg s = s\<lparr>logged := logged s @ [(lv, msg)]\<rparr>"

section \<open>InterfaceManager (src/router/interfaces.py)\<close>

text \<open>The loop over \<open>PING_TARGETS\<close> in \<open>get_interface_metrics\<close>: a result that is not \<open>None\<close>
  is a non-empty dictionary, hence true, and is appended to both lists.\<close>

fun ping_targets ::
  "'w router_env \<Rightarrow> string \<Rightarrow> string list \<Rightarrow> pyfloat list \<times> pyfloat list \<Rightarrow> 'w
   \<Rightarrow> (pyfloat list \<times> pyfloat list) \<times> 'w" where
  "ping_targets env interface_name [] acc w = (acc, w)"
| "ping_targets env interface_name (target # targets) (latencies, packet_losses) w =
     (case check_interface_connectivity env interface_name target 5 w of
        (Some ping_result, w1) \<Rightarrow>
          ping_targets env interface_name targets
            (latencies @ [avg_latency ping_result],
             packet_losses @ [pr_packet_loss ping_result]) w1
      | (None, w1) \<Rightarrow>
          ping_targets env interface_name targets (latencies, packet_losses) w1)"

text \<open>\<open>not interface_status or interface_status.get('running') != 'true'\<close>\<close>

definition not_running :: "iface_dict option \<Rightarrow> bool" where
  "not_running interface_status =
     (case interface_status of
        None \<Rightarrow> True
      | Some d \<Rightarrow> d = [] \<or> map_of d ''running'' \<noteq> Some ''true'')"

definition get_interface_metrics ::
  "config \<Rightarrow> 'w router_env \<Rightarrow> string \<Rightarrow> 'w system \<Rightarrow> metrics \<times> 'w system" where
  "get_interface_metrics cfg env interface_name s =
     (case get_interface_status env interface_name (world s) of
        (interface_status, w1) \<Rightarrow>
          if not_running interface_status then
            (let s1 = log_record WARNING (Interface_down interface_name) (s\<lparr>world := w1\<rparr>)
             in case time_time env (world s1) of
                  (now, w2) \<Rightarrow>
                    (\<lparr>interface = interface_name, status = ''down'', latency = PInf,
                      packet_loss = Fin 100, timestamp = Some now\<rparr>,
                     s1\<lparr>world := w2\<rparr>))
          else
            (case ping_targets env interface_name (PING_TARGETS cfg) ([], []) w1 of
               ((latencies, packet_losses), w2) \<Rightarrow>
                 (let avg_lat = py_mean latencies PInf;
                      avg_loss = py_mean packet_losses (Fin 100)
                  in case time_time env w2 of
                       (now, w3) \<Rightarrow>
                         (\<lparr>interface = interface_name, status = ''up'',
                           latency = avg_lat, packet_loss = avg_loss,
                           timestamp = Some now\<rparr>,
                          s\<lparr>world := w3\<rparr>))))"

text \<open>The result dictionary keeps insertion order; assigning to a key that is already
  present replaces its value in place.\<close>

definition check_interfaces ::
  "config \<Rightarrow> 'w router_env \<Rightarrow> 'w system \<Rightarrow> (string \<times> metrics) list \<times> 'w system" where
  "check_interfaces cfg env s =
     (case get_interface_metrics cfg env (primary_interface (manager s)) s of
        (primary_status, s1) \<Rightarrow>
          (case get_interface_metrics cfg env (secondary_interface (manager s1)) s1 of
             (secondary_status, s2) \<Rightarrow>
               (AList.update (secondary_interface (manager s2)) secondary_status
                  (AList.update (primary_interface (manager s2)) primary_status []),
                s2)))"

text \<open>The result of the first priority update (for the old interface) is dropped; only the
  world it leaves is passed on.\<close>

definition perform_failover ::
  "'w router_env \<Rightarrow> string \<Rightarrow> string \<Rightarrow> 'w system \<Rightarrow> bool \<times> 'w system" where
  "perform_failover env from_interface to_interface s =
     (let s1 = log_record INFO (Performing_failover from_interface to_interface) s;
          w1 = snd (update_routing_priority env from_interface 10 (world s1))
      in case update_routing_priority env to_interface 1 w1 of
           (success, w2) \<Rightarrow>
             if success then
               (case time_time env w2 of
                  (now, w3) \<Rightarrow>
                    (True,
                     log_record INFO (Failover_successful to_interface)
                       (s1\<lparr>manager := (manager s1)\<lparr>current_active := to_interface,
                                                    failover_timestamp := Some now\<rparr>,
                           world := w3\<rparr>)))
             else
               (False, log_record ERROR (Failover_failed to_interface) (s1\<lparr>world := w2\<rparr>)))"

text \<open>\<open>self.failover_timestamp\<close> as a condition: \<open>None\<close> and \<open>0.0\<close> are false.\<close>

definition evaluate_failover_need ::
  "config \<Rightarrow> 'w router_env \<Rightarrow> (string \<times> metrics) list \<Rightarrow> 'w system
   \<Rightarrow> (bool \<times> string) \<times> 'w system" where
  "evaluate_failover_need cfg env metrics s =
     (let primary_metrics = map_of metrics (primary_interface (manager s));
          secondary_metrics = map_of metrics (secondary_interface (manager s));
          primary_healthy = is_interface_healthy (THRESHOLDS cfg) primary_metrics;
          secondary_healthy = is_interface_healthy (THRESHOLDS cfg) secondary_metrics;
          current_interface = current_active (manager s);
          current_metrics = map_of metrics current_interface;
          current_healthy = is_interface_healthy (THRESHOLDS cfg) current_metrics
      in if current_healthy then
           (case failover_timestamp (manager s) of
              None \<Rightarrow> ((False, current_interface), s)
            | Some ts \<Rightarrow>
                if current_interface = secondary_interface (manager s) \<and> primary_healthy
                   \<and> ts \<noteq> 0
                then
                  (case time_time env (world s) of
                     (now, w1) \<Rightarrow>
                       (let time_since_failover = now - ts
                        in if time_since_failover > failover_timeout (THRESHOLDS cfg)
                           then ((True, primary_interface (manager s)),
                                 log_record INFO Switching_back (s\<lparr>world := w1\<rparr>))
                           else ((False, current_interface), s\<lparr>world := w1\<rparr>)))
                else ((False, current_interface), s))
         else if current_interface = primary_interface (manager s) \<and> secondary_healthy
           then ((True, secondary_interface (manager s)), s)
         else if current_interface = secondary_interface (manager s) \<and> primary_healthy
           then ((True, primary_interface (manager s)), s)
         else if \<not> primary_healthy \<and> \<not> secondary_healthy
           then ((False, current_interface), log_record WARNING Both_down s)
         else ((False, current_interface), s))"

section \<open>NetworkMonitor (src/monitoring/collector.py)\<close>

definition set_failures :: "string \<Rightarrow> int \<Rightarrow> 'w system \<Rightarrow> 'w system" where
  "set_failures iface n s =
     s\<lparr>monitor := (monitor s)\<lparr>consecutive_failures :=
                                 (consecutive_failures (monitor s))(iface \<mapsto> n)\<rparr>\<rparr>"

text \<open>The body of the first loop of \<open>process_metrics\<close>: \<open>n\<close> is the counter after the
  initialisation to 0 of an interface seen for the first time.\<close>

definition track_failures :: "config \<Rightarrow> string \<times> metrics \<Rightarrow> 'w system \<Rightarrow> 'w system" where
  "track_failures cfg item s =
     (case item of
        (iface, interface_metrics) \<Rightarrow>
          (let is_healthy = is_interface_healthy (THRESHOLDS cfg) (Some interface_metrics);
               n = (case consecutive_failures (monitor s) iface of
                      None \<Rightarrow> 0 | Some c \<Rightarrow> c);
               s1 = set_failures iface n s
           in if \<not> is_healthy then
                log_record WARNING
                  (Interface_failure iface (n + 1) (latency interface_metrics)
                     (packet_loss interface_metrics))
                  (set_failures iface (n + 1) s1)
              else if n > 0 then
                set_failures iface 0 (log_record INFO (Healthy_again iface) s1)
              else s1))"

text \<open>The condition of the second part of \<open>process_metrics\<close>.\<close>

definition failure_gate :: "config \<Rightarrow> 'w system \<Rightarrow> bool" where
  "failure_gate cfg s =
     (case consecutive_failures (monitor s) (current_active (manager s)) of
        None \<Rightarrow> False
      | Some c \<Rightarrow> c \<ge> consecutive_failures_threshold (THRESHOLDS cfg))"

text \<open>The block under that condition. The value returned by \<open>perform_failover\<close> is not
  looked at, and the counter of the old active interface is set to 0 after the call.\<close>

definition evaluate_and_switch ::
  "config \<Rightarrow> 'w router_env \<Rightarrow> (string \<times> metrics) list \<Rightarrow> 'w system \<Rightarrow> 'w system" where
  "evaluate_and_switch cfg env metrics s =
     (let active = current_active (manager s)
      in case evaluate_failover_need cfg env metrics s of
           ((need_failover, target_interface), s1) \<Rightarrow>
             if need_failover \<and> target_interface \<noteq> active then
               set_failures active 0
                 (snd (perform_failover env active target_interface s1))
             else s1)"

definition process_metrics ::
  "config \<Rightarrow> 'w router_env \<Rightarrow> (string \<times> metrics) list \<Rightarrow> 'w system \<Rightarrow> 'w system" where
  "process_metrics cfg env metrics s =
     (let s1 = fold (track_failures cfg) metrics s
      in if failure_gate cfg s1 then evaluate_and_switch cfg env metrics s1 else s1)"

text \<open>\<open>if 'timestamp' not in interface_metrics: interface_metrics['timestamp'] = timestamp\<close>\<close>

definition stamp :: "real \<Rightarrow> metrics \<Rightarrow> metrics" where
  "stamp ts m = (if timestamp m = None then m\<lparr>timestamp := Some ts\<rparr> else m)"

text \<open>\<open>xs[-1000:]\<close> when \<open>len(xs) > 1000\<close>\<close>

definition last_1000 :: "'a list \<Rightarrow> 'a list" where
  "last_1000 xs = drop (length xs - 1000) xs"

text \<open>The body of the loop of \<open>collect_metrics\<close>.\<close>

definition store_history ::
  "'w router_env \<Rightarrow> real \<Rightarrow> string \<times> metrics \<Rightarrow> 'w system \<Rightarrow> 'w system" where
  "store_history env ts item s =
     (case item of
        (iface, interface_metrics) \<Rightarrow>
          (let history = (case metrics_history (monitor s) iface of
                            None \<Rightarrow> [] | Some h \<Rightarrow> h);
               m = stamp ts interface_metrics;
               appended = history @ [m];
               kept = (if length appended > 1000 then last_1000 appended else appended);
               s1 = s\<lparr>monitor := (monitor s)\<lparr>metrics_history :=
                                              (metrics_history (monitor s))(iface \<mapsto> kept)\<rparr>\<rparr>;
               s2 = (if persistence (monitor s1)
                     then s1\<lparr>world := store_metrics env m (world s1)\<rparr> else s1)
           in log_record DEBUG (Interface_metrics ts iface (latency m) (packet_loss m)) s2))"

text \<open>The dictionaries are changed in place, so the returned \<open>metrics\<close> carry the added
  timestamps.\<close>

definition collect_metrics ::
  "config \<Rightarrow> 'w router_env \<Rightarrow> 'w system \<Rightarrow> (string \<times> metrics) list \<times> 'w system" where
  "collect_metrics cfg env s =
     (case check_interfaces cfg env s of
        (metrics, s1) \<Rightarrow>
          (case time_time env (world s1) of
             (ts, w1) \<Rightarrow>
               (map (\<lambda>(iface, m). (iface, stamp ts m)) metrics,
                fold (store_history env ts) metrics (s1\<lparr>world := w1\<rparr>))))"

text \<open>One pass of \<open>_monitoring_loop\<close>, without the sleep.\<close>

definition monitoring_round :: "config \<Rightarrow> 'w router_env \<Rightarrow> 'w system \<Rightarrow> 'w system" where
  "monitoring_round cfg env s =
     (case collect_metrics cfg env s of (metrics, s1) \<Rightarrow> process_metrics cfg env metrics s1)"

section \<open>Observations used to state the properties\<close>

text \<open>The results that the loop of \<open>get_interface_metrics\<close> obtains from the router, in the
  order of the targets, without the calls that returned \<open>None\<close>.\<close>

fun ping_results ::
  "'w router_env \<Rightarrow> string \<Rightarrow> string list \<Rightarrow> 'w \<Rightarrow> ping_result list \<times> 'w" where
  "ping_results env interface_name [] w = ([], w)"
| "ping_results env interface_name (target # targets) w =
     (case check_interface_connectivity env interface_name target 5 w of
        (r, w1) \<Rightarrow>
          (case ping_results env interface_name targets w1 of
             (rs, w2) \<Rightarrow> ((case r of None \<Rightarrow> [] | Some x \<Rightarrow> [x]) @ rs, w2)))"

text \<open>The aggregate latency as the specification words it: the mean over the targets
  that had at least one successful ping.\<close>

definition spec_aggregate_latency :: "ping_result list \<Rightarrow> pyfloat" where
  "spec_aggregate_latency rs = py_mean (map avg_latency (filter (\<lambda>r. received r > 0) rs)) PInf"

text \<open>The history of an interface, empty when it has none yet.\<close>

definition history_of :: "'w system \<Rightarrow> string \<Rightarrow> metrics list" where
  "history_of s iface = (case metrics_history (monitor s) iface of None \<Rightarrow> [] | Some h \<Rightarrow> h)"

text \<open>The state after a sequence of rounds, one \<open>process_metrics\<close> call for each.\<close>

definition after_rounds ::
  "config \<Rightarrow> 'w router_env \<Rightarrow> (string \<times> metrics) list list \<Rightarrow> 'w system \<Rightarrow> 'w system" where
  "after_rounds cfg env rounds s = fold (process_metrics cfg env) rounds s"

text \<open>The failure counter of an interface, 0 when it has none yet (as the first loop of
  \<open>process_metrics\<close> initialises it).\<close>

definition failures_of :: "'w system \<Rightarrow> string \<Rightarrow> int" where
  "failures_of s iface = (case consecutive_failures (monitor s) iface of None \<Rightarrow> 0 | Some c \<Rightarrow> c)"

text \<open>A round of metrics (a dictionary, so its keys are distinct) in which the interface
  \<open>a\<close> is present and unhealthy.\<close>

definition unhealthy_round :: "config \<Rightarrow> string \<Rightarrow> (string \<times> metrics) list \<Rightarrow> bool" where
  "unhealthy_round cfg a m =
     (distinct (map fst m) \<and>
      (case map_of m a of None \<Rightarrow> False
       | Some x \<Rightarrow> \<not> is_interface_healthy (THRESHOLDS cfg) (Some x)))"

section \<open>A simulated router, clock and database\<close>

text \<open>
  A concrete world on which the functions are evaluated: a device with an interface table,
  fixed ping answers for each interface and target, a set of interfaces whose priority
  update fails, and the list of priority updates received; a clock that stands still
  during a round; and the two tables of the metrics database (presistence.py), of which
  only \<open>interface_metrics\<close> is ever written by the modelled code.
\<close>

record failover_event =
  ev_timestamp :: real
  ev_from_interface :: string
  ev_to_interface :: string
  ev_reason :: "string option"

record sim_world =
  sim_now :: real
  sim_status :: "(string \<times> iface_dict) list"
  sim_replies :: "((string \<times> string) \<times> ping_reply list) list"
  sim_update_fails :: "string list"
  sim_updates :: "(string \<times> int) list"
  sim_metrics_rows :: "metrics list"
  sim_failover_events :: "failover_event list"

definition sim_env :: "sim_world router_env" where
  "sim_env =
     \<lparr>get_interface_status = (\<lambda>name w. (map_of (sim_status w) name, w)),
      api_ping = (\<lambda>address iface count w. (map_of (sim_replies w) (iface, address), w)),
      update_routing_priority =
        (\<lambda>iface distance w.
           (iface \<notin> set (sim_update_fails w),
            w\<lparr>sim_updates := sim_updates w @ [(iface, distance)]\<rparr>)),
      time_time = (\<lambda>w. (sim_now w, w)),
      store_metrics = (\<lambda>m w. w\<lparr>sim_metrics_rows := sim_metrics_rows w @ [m]\<rparr>)\<rparr>"

text \<open>Three interfaces running; on \<open>ether1\<close> the first target answers five times in 20 ms
  and the second target never answers; on \<open>ether2\<close> both targets answer in 20 ms; on
  \<open>ether3\<close> every ping call fails.\<close>

definition five_replies :: "ping_reply \<Rightarrow> ping_reply list" where
  "five_replies r = [r, r, r, r, r]"

definition sim_world0 :: "real \<Rightarrow> string list \<Rightarrow> sim_world" where
  "sim_world0 now failing =
     \<lparr>sim_now = now,
      sim_status = [(''ether1'', [(''name'', ''ether1''), (''running'', ''true'')]),
                    (''ether2'', [(''name'', ''ether2''), (''running'', ''true'')]),
                    (''ether3'', [(''name'', ''ether3''), (''running'', ''true'')])],
      sim_replies = [((''ether1'', ''8.8.8.8''), five_replies (Reply_time (Fin 20))),
                     ((''ether1'', ''1.1.1.1''), five_replies Reply_no_time),
                     ((''ether2'', ''8.8.8.8''), five_replies (Reply_time (Fin 20))),
                     ((''ether2'', ''1.1.1.1''), five_replies (Reply_time (Fin 20)))],
      sim_update_fails = failing,
      sim_updates = [],
      sim_metrics_rows = [],
      sim_failover_events = []\<rparr>"

definition down_metrics :: "string \<Rightarrow> metrics" where
  "down_metrics name =
     \<lparr>interface = name, status = ''down'', latency = PInf, packet_loss = Fin 100,
      timestamp = Some 0\<rparr>"

definition good_metrics :: "string \<Rightarrow> metrics" where
  "good_metrics name =
     \<lparr>interface = name, status = ''up'', latency = Fin 20, packet_loss = Fin 0,
      timestamp = Some 0\<rparr>"

text \<open>The system with a given active interface, failover timestamp and failure counter of
  the active interface, on the simulated world.\<close>

definition sim_system ::
  "string \<Rightarrow> real option \<Rightarrow> int \<Rightarrow> sim_world \<Rightarrow> sim_world system" where
  "sim_system active ts failures w =
     (let s = init_system router_config True w
      in s\<lparr>manager := (manager s)\<lparr>current_active := active, failover_timestamp := ts\<rparr>,
           monitor := (monitor s)\<lparr>consecutive_failures := [active \<mapsto> failures]\<rparr>\<rparr>)"

text \<open>The same system with a full history (1000 entries) for \<open>ether1\<close> and none for
  \<open>ether2\<close>.\<close>

definition sim_full_history :: "sim_world system" where
  "sim_full_history =
     (let s = sim_system ''ether1'' None 0 (sim_world0 1000 [])
      in s\<lparr>monitor := (monitor s)\<lparr>metrics_history :=
                          [''ether1'' \<mapsto> replicate 1000 (good_metrics ''ether1'')]\<rparr>\<rparr>)"

text \<open>Two rounds of metrics: the primary is down and the secondary is good; both are good.\<close>

definition primary_down_round :: "(string \<times> metrics) list" where
  "primary_down_round = [(''ether1'', down_metrics ''ether1''), (''ether2'', good_metrics ''ether2'')]"

definition both_good_round :: "(string \<times> metrics) list" where
  "both_good_round = [(''ether1'', good_metrics ''ether1''), (''ether2'', good_metrics ''ether2'')]"

definition both_down_round :: "(string \<times> metrics) list" where
  "both_down_round = [(''ether1'', down_metrics ''ether1''), (''ether2'', down_metrics ''ether2'')]"

lemmas sim_defs = sim_env_def sim_system_def sim_world0_def init_system_def router_config_def
  down_metrics_def good_metrics_def primary_down_round_def both_good_round_def
  both_down_round_def five_replies_def

lemmas run_defs = process_metrics_def track_failures_def failure_gate_def
  evaluate_and_switch_def evaluate_failover_need_def perform_failover_def
  is_interface_healthy_def set_failures_def log_record_def

section \<open>Health evaluation\<close>

text \<open>
  C3. \<open>is_interface_healthy\<close> is false for absent metrics and for status \<open>down\<close>, whatever
  the latency and packet loss are. Otherwise it is true exactly when latency is below
  \<open>latency_max\<close> and packet loss is below \<open>packet_loss_max\<close>, both strictly: a latency equal
  to \<open>latency_max\<close>, or a packet loss equal to \<open>packet_loss_max\<close>, is unhealthy.
\<close>

theorem is_interface_healthy_strict:
  "\<not> is_interface_healthy th None
   \<and> (status m = ''down'' \<longrightarrow> \<not> is_interface_healthy th (Some m))
   \<and> (status m \<noteq> ''down'' \<longrightarrow>
        (is_interface_healthy th (Some m) \<longleftrightarrow>
           fl_less (latency m) (latency_max th) \<and> fl_less (packet_loss m) (packet_loss_max th)))
   \<and> (latency m = Fin a \<and> packet_loss m = Fin b \<and> status m \<noteq> ''down'' \<longrightarrow>
        (is_interface_healthy th (Some m) \<longleftrightarrow> a < latency_max th \<and> b < packet_loss_max th))
   \<and> (latency m = Fin (latency_max th) \<longrightarrow> \<not> is_interface_healthy th (Some m))
   \<and> (packet_loss m = Fin (packet_loss_max th) \<longrightarrow> \<not> is_interface_healthy th (Some m))"
  by (simp add: is_interface_healthy_def Let_def)

theorem is_interface_healthy_strict_witness:
  "is_interface_healthy (THRESHOLDS router_config)
     (Some \<lparr>interface = ''ether1'', status = ''up'', latency = Fin 99, packet_loss = Fin 4,
            timestamp = Some 0\<rparr>)
   \<and> \<not> is_interface_healthy (THRESHOLDS router_config)
     (Some \<lparr>interface = ''ether1'', status = ''up'', latency = Fin 100, packet_loss = Fin 0,
            timestamp = Some 0\<rparr>)
   \<and> \<not> is_interface_healthy (THRESHOLDS router_config)
     (Some \<lparr>interface = ''ether1'', status = ''up'', latency = Fin 20, packet_loss = Fin 5,
            timestamp = Some 0\<rparr>)
   \<and> \<not> is_interface_healthy (THRESHOLDS router_config)
     (Some \<lparr>interface = ''ether1'', status = ''down'', latency = Fin 20, packet_loss = Fin 0,
            timestamp = Some 0\<rparr>)"
  using is_interface_healthy_strict
          [of "THRESHOLDS router_config"
              "\<lparr>interface = ''ether1'', status = ''up'', latency = Fin 99, packet_loss = Fin 4,
                timestamp = Some 0\<rparr>" 99 4]
        is_interface_healthy_strict
          [of "THRESHOLDS router_config"
              "\<lparr>interface = ''ether1'', status = ''up'', latency = Fin 100, packet_loss = Fin 0,
                timestamp = Some 0\<rparr>" 100 0]
        is_interface_healthy_strict
          [of "THRESHOLDS router_config"
              "\<lparr>interface = ''ether1'', status = ''up'', latency = Fin 20, packet_loss = Fin 5,
                timestamp = Some 0\<rparr>" 20 5]
        is_interface_healthy_strict
          [of "THRESHOLDS router_config"
              "\<lparr>interface = ''ether1'', status = ''down'', latency = Fin 20, packet_loss = Fin 0,
                timestamp = Some 0\<rparr>" 20 0]
  by (simp add: router_config_def)

section \<open>Switching: \<open>perform_failover\<close>\<close>

text \<open>
  C4. When the priority update for the target interface returns failure,
  \<open>perform_failover\<close> returns false and leaves the manager as it was: \<open>current_active\<close> and
  \<open>failover_timestamp\<close> are unchanged (and so is the monitor).
\<close>

theorem perform_failover_target_failure:
  assumes "\<not> fst (update_routing_priority env to_if 1
                    (snd (update_routing_priority env from_if 10 (world s))))"
  shows "\<not> fst (perform_failover env from_if to_if s)
         \<and> manager (snd (perform_failover env from_if to_if s)) = manager s
         \<and> monitor (snd (perform_failover env from_if to_if s)) = monitor s"
  using assms
  by (auto simp add: perform_failover_def log_record_def Let_def split: prod.splits)

theorem perform_failover_target_failure_witness:
  "\<not> fst (perform_failover sim_env ''ether1'' ''ether2''
            (sim_system ''ether1'' None 3 (sim_world0 1000 [''ether2''])))
   \<and> current_active (manager (snd (perform_failover sim_env ''ether1'' ''ether2''
            (sim_system ''ether1'' None 3 (sim_world0 1000 [''ether2''])))))
       = ''ether1''
   \<and> failover_timestamp (manager (snd (perform_failover sim_env ''ether1'' ''ether2''
            (sim_system ''ether1'' None 3 (sim_world0 1000 [''ether2''])))))
       = None"
proof -
  let ?s = "sim_system ''ether1'' None 3 (sim_world0 1000 [''ether2''])"
  have h: "\<not> fst (update_routing_priority sim_env ''ether2'' 1
                    (snd (update_routing_priority sim_env ''ether1'' 10 (world ?s))))"
    by (simp add: sim_env_def sim_system_def sim_world0_def init_system_def Let_def)
  have m: "manager ?s = \<lparr>primary_interface = ''ether1'', secondary_interface = ''ether2'',
              current_active = ''ether1'', failover_timestamp = None\<rparr>"
    by (simp add: sim_system_def init_system_def router_config_def Let_def)
  from perform_failover_target_failure [OF h] m show ?thesis by simp
qed

text \<open>
  C10. \<open>perform_failover\<close> first issues the priority update for the old interface and drops
  its result: the update for the target runs on the world the first update left. The call
  returns exactly the result of the target's update; \<open>current_active\<close> and
  \<open>failover_timestamp\<close> are updated exactly when that result is success, whatever the
  update for the old interface returned.
\<close>

theorem perform_failover_target_decides:
  "fst (perform_failover env from_if to_if s)
     = fst (update_routing_priority env to_if 1
              (snd (update_routing_priority env from_if 10 (world s))))
   \<and> manager (snd (perform_failover env from_if to_if s))
     = (if fst (update_routing_priority env to_if 1
                  (snd (update_routing_priority env from_if 10 (world s))))
        then (manager s)\<lparr>current_active := to_if,
               failover_timestamp :=
                 Some (fst (time_time env
                   (snd (update_routing_priority env to_if 1
                     (snd (update_routing_priority env from_if 10 (world s)))))))\<rparr>
        else manager s)
   \<and> world (snd (perform_failover env from_if to_if s))
     = (if fst (update_routing_priority env to_if 1
                  (snd (update_routing_priority env from_if 10 (world s))))
        then snd (time_time env
                   (snd (update_routing_priority env to_if 1
                     (snd (update_routing_priority env from_if 10 (world s))))))
        else snd (update_routing_priority env to_if 1
                     (snd (update_routing_priority env from_if 10 (world s)))))"
  by (auto simp add: perform_failover_def log_record_def Let_def split: prod.splits)

theorem perform_failover_target_decides_witness:
  "\<not> fst (update_routing_priority sim_env ''ether1'' 10
            (world (sim_system ''ether1'' None 3 (sim_world0 1000 [''ether1'']))))
   \<and> fst (perform_failover sim_env ''ether1'' ''ether2''
            (sim_system ''ether1'' None 3 (sim_world0 1000 [''ether1''])))
   \<and> current_active (manager (snd (perform_failover sim_env ''ether1'' ''ether2''
            (sim_system ''ether1'' None 3 (sim_world0 1000 [''ether1''])))))
       = ''ether2''
   \<and> failover_timestamp (manager (snd (perform_failover sim_env ''ether1'' ''ether2''
            (sim_system ''ether1'' None 3 (sim_world0 1000 [''ether1''])))))
       = Some 1000
   \<and> sim_updates (world (snd (perform_failover sim_env ''ether1'' ''ether2''
            (sim_system ''ether1'' None 3 (sim_world0 1000 [''ether1''])))))
       = [(''ether1'', 10), (''ether2'', 1)]"
  using perform_failover_target_decides
          [of sim_env "''ether1''" "''ether2''"
              "sim_system ''ether1'' None 3 (sim_world0 1000 [''ether1''])"]
  by (simp add: sim_env_def sim_system_def sim_world0_def init_system_def router_config_def
        Let_def)

text \<open>
  C7, as amended. When \<open>perform_failover\<close> returns true, \<open>current_active\<close> is the target and
  \<open>failover_timestamp\<close> is the clock read after the two priority updates. The switch is
  written to the log only (two INFO entries); the world is changed by the two priority
  updates and the clock read and by nothing else, so nothing is written to the metrics
  database.
\<close>

theorem perform_failover_success:
  assumes "fst (perform_failover env from_if to_if s)"
  shows "current_active (manager (snd (perform_failover env from_if to_if s))) = to_if
   \<and> failover_timestamp (manager (snd (perform_failover env from_if to_if s)))
       = Some (fst (time_time env
           (snd (update_routing_priority env to_if 1
              (snd (update_routing_priority env from_if 10 (world s)))))))
   \<and> world (snd (perform_failover env from_if to_if s))
       = snd (time_time env
           (snd (update_routing_priority env to_if 1
              (snd (update_routing_priority env from_if 10 (world s))))))
   \<and> logged (snd (perform_failover env from_if to_if s))
       = logged s @ [(INFO, Performing_failover from_if to_if),
                     (INFO, Failover_successful to_if)]
   \<and> monitor (snd (perform_failover env from_if to_if s)) = monitor s"
  using assms
  by (auto simp add: perform_failover_def log_record_def Let_def split: prod.splits if_splits)

theorem perform_failover_success_witness:
  "fst (perform_failover sim_env ''ether1'' ''ether2''
            (sim_system ''ether1'' None 3 (sim_world0 1000 [])))
   \<and> current_active (manager (snd (perform_failover sim_env ''ether1'' ''ether2''
            (sim_system ''ether1'' None 3 (sim_world0 1000 []))))) = ''ether2''
   \<and> failover_timestamp (manager (snd (perform_failover sim_env ''ether1'' ''ether2''
            (sim_system ''ether1'' None 3 (sim_world0 1000 []))))) = Some 1000"
proof -
  let ?s = "sim_system ''ether1'' None 3 (sim_world0 1000 [])"
  have h: "fst (perform_failover sim_env ''ether1'' ''ether2'' ?s)"
    by (simp add: sim_defs perform_failover_def log_record_def Let_def)
  from perform_failover_success [OF h] h show ?thesis
    by (simp add: sim_defs Let_def)
qed

text \<open>
  C7 as stated fails: after a successful switch, called directly or from a round of
  \<open>process_metrics\<close>, the table of failover events of the database is still empty.
\<close>

theorem no_failover_event_recorded:
  "fst (perform_failover sim_env ''ether1'' ''ether2''
            (sim_system ''ether1'' None 3 (sim_world0 1000 [])))
   \<and> sim_failover_events (world (snd (perform_failover sim_env ''ether1'' ''ether2''
            (sim_system ''ether1'' None 3 (sim_world0 1000 []))))) = []
   \<and> current_active (manager (process_metrics router_config sim_env primary_down_round
            (sim_system ''ether1'' None 2 (sim_world0 1000 [])))) = ''ether2''
   \<and> failover_timestamp (manager (process_metrics router_config sim_env primary_down_round
            (sim_system ''ether1'' None 2 (sim_world0 1000 [])))) = Some 1000
   \<and> sim_updates (world (process_metrics router_config sim_env primary_down_round
            (sim_system ''ether1'' None 2 (sim_world0 1000 []))))
       = [(''ether1'', 10), (''ether2'', 1)]
   \<and> sim_failover_events (world (process_metrics router_config sim_env primary_down_round
            (sim_system ''ether1'' None 2 (sim_world0 1000 [])))) = []
   \<and> sim_metrics_rows (world (process_metrics router_config sim_env primary_down_round
            (sim_system ''ether1'' None 2 (sim_world0 1000 [])))) = []"
  by (simp add: sim_defs run_defs Let_def)

section \<open>Rounds: \<open>process_metrics\<close>\<close>

subsection \<open>The first loop: failure counters\<close>

lemma track_failures_manager: "manager (track_failures cfg item s) = manager s"
  by (cases item) (simp add: track_failures_def set_failures_def log_record_def Let_def)

lemma track_failures_world: "world (track_failures cfg item s) = world s"
  by (cases item) (simp add: track_failures_def set_failures_def log_record_def Let_def)

lemma fold_track_manager: "manager (fold (track_failures cfg) m s) = manager s"
  by (induction m arbitrary: s) (simp_all add: track_failures_manager)

lemma fold_track_world: "world (fold (track_failures cfg) m s) = world s"
  by (induction m arbitrary: s) (simp_all add: track_failures_world)

lemma track_failures_counter:
  "consecutive_failures (monitor (track_failures cfg (i, x) s)) k =
     (if k = i
      then Some (if \<not> is_interface_healthy (THRESHOLDS cfg) (Some x) then failures_of s i + 1
                 else if failures_of s i > 0 then 0 else failures_of s i)
      else consecutive_failures (monitor s) k)"
  by (simp add: track_failures_def set_failures_def log_record_def Let_def failures_of_def)

lemma fold_track_counter_other:
  "k \<notin> fst ` set m \<Longrightarrow>
   consecutive_failures (monitor (fold (track_failures cfg) m s)) k
     = consecutive_failures (monitor s) k"
proof (induction m arbitrary: s)
  case Nil
  then show ?case by simp
next
  case (Cons item m)
  obtain i x where item: "item = (i, x)" by (cases item)
  from Cons.prems item have "k \<noteq> i" and "k \<notin> fst ` set m" by auto
  then show ?case using Cons.IH [of "track_failures cfg item s"] item
    by (simp add: track_failures_counter)
qed

lemma fold_track_counter:
  assumes "distinct (map fst m)" and "map_of m k = Some x"
  shows "consecutive_failures (monitor (fold (track_failures cfg) m s)) k =
     Some (if \<not> is_interface_healthy (THRESHOLDS cfg) (Some x) then failures_of s k + 1
           else if failures_of s k > 0 then 0 else failures_of s k)"
  using assms
proof (induction m arbitrary: s)
  case Nil
  then show ?case by simp
next
  case (Cons item m)
  obtain i y where item: "item = (i, y)" by (cases item)
  show ?case
  proof (cases "k = i")
    case True
    with Cons.prems item have "x = y" and "k \<notin> fst ` set m" by auto
    then show ?thesis using item True
      by (simp add: fold_track_counter_other track_failures_counter)
  next
    case False
    with Cons.prems item have d: "distinct (map fst m)" and l: "map_of m k = Some x" by auto
    have "failures_of (track_failures cfg item s) k = failures_of s k"
      using False item by (simp add: failures_of_def track_failures_counter)
    then show ?thesis using Cons.IH [OF d l, of "track_failures cfg item s"] by simp
  qed
qed

lemma process_metrics_below_gate:
  "\<not> failure_gate cfg (fold (track_failures cfg) m s) \<Longrightarrow>
   process_metrics cfg env m s = fold (track_failures cfg) m s"
  by (simp add: process_metrics_def Let_def)

lemma after_rounds_snoc:
  "after_rounds cfg env (rounds @ [m]) s = process_metrics cfg env m (after_rounds cfg env rounds s)"
  by (simp add: after_rounds_def)

lemma tracked_unhealthy:
  assumes "unhealthy_round cfg a m"
  shows "consecutive_failures (monitor (fold (track_failures cfg) m s)) a = Some (failures_of s a + 1)"
proof -
  from assms obtain x where "map_of m a = Some x"
    and "\<not> is_interface_healthy (THRESHOLDS cfg) (Some x)" and "distinct (map fst m)"
    by (auto simp: unhealthy_round_def split: option.splits)
  then show ?thesis using fold_track_counter [of m a x cfg s] by simp
qed

lemma rounds_before_gate:
  assumes "list_all (unhealthy_round cfg (current_active (manager s))) rounds"
    and "failures_of s (current_active (manager s)) = 0"
    and "int (length rounds) < consecutive_failures_threshold (THRESHOLDS cfg)"
  shows "manager (after_rounds cfg env rounds s) = manager s
       \<and> world (after_rounds cfg env rounds s) = world s
       \<and> failures_of (after_rounds cfg env rounds s) (current_active (manager s))
           = int (length rounds)"
  using assms
proof (induction rounds rule: rev_induct)
  case Nil
  then show ?case by (simp add: after_rounds_def)
next
  case (snoc m rounds)
  let ?a = "current_active (manager s)"
  let ?b = "after_rounds cfg env rounds s"
  let ?t = "fold (track_failures cfg) m ?b"
  from snoc have ih: "manager ?b = manager s" "world ?b = world s"
    "failures_of ?b ?a = int (length rounds)" by auto
  from snoc.prems have bad: "unhealthy_round cfg ?a m" by simp
  have c: "consecutive_failures (monitor ?t) ?a = Some (int (length rounds) + 1)"
    using tracked_unhealthy [OF bad, of ?b] ih by simp
  have "\<not> failure_gate cfg ?t"
    using c snoc.prems(3) by (simp add: failure_gate_def fold_track_manager ih)
  then have "process_metrics cfg env m ?b = ?t" by (rule process_metrics_below_gate)
  then show ?case using c ih
    by (simp add: after_rounds_snoc fold_track_manager fold_track_world failures_of_def)
qed

text \<open>
  C5. Let the active interface have no failures counted, and let it be unhealthy in \<open>N\<close>
  rounds in a row, \<open>N\<close> being the \<open>consecutive_failures\<close> threshold. Then no round before
  round \<open>N\<close> evaluates failover: such a round only updates the counters (manager and world
  stay as they were), and round \<open>N\<close> is the first to run the evaluation, on the counters
  it has just updated. In general, a round whose updated counter of the active interface is
  below the threshold does nothing but update counters, whatever the evaluation would
  have said.
\<close>

theorem gate_trips_on_round_N:
  assumes bad: "list_all (unhealthy_round cfg (current_active (manager s))) rounds"
    and fresh: "failures_of s (current_active (manager s)) = 0"
    and len: "int (length rounds) = consecutive_failures_threshold (THRESHOLDS cfg)"
  shows "(\<forall>j<length rounds.
           manager (after_rounds cfg env (take j rounds) s) = manager s
         \<and> world (after_rounds cfg env (take j rounds) s) = world s
         \<and> failures_of (fold (track_failures cfg) (rounds ! j)
               (after_rounds cfg env (take j rounds) s)) (current_active (manager s)) = int j + 1
         \<and> process_metrics cfg env (rounds ! j) (after_rounds cfg env (take j rounds) s)
             = (if j + 1 = length rounds
                then evaluate_and_switch cfg env (rounds ! j)
                       (fold (track_failures cfg) (rounds ! j)
                          (after_rounds cfg env (take j rounds) s))
                else fold (track_failures cfg) (rounds ! j)
                       (after_rounds cfg env (take j rounds) s)))
       \<and> (\<forall>m t. \<not> failure_gate cfg (fold (track_failures cfg) m t) \<longrightarrow>
              process_metrics cfg env m t = fold (track_failures cfg) m t
            \<and> manager (process_metrics cfg env m t) = manager t
            \<and> world (process_metrics cfg env m t) = world (t :: 'a system))"
proof (rule conjI; intro allI impI)
  fix j assume j: "j < length rounds"
  let ?a = "current_active (manager s)"
  let ?b = "after_rounds cfg env (take j rounds) s"
  let ?t = "fold (track_failures cfg) (rounds ! j) ?b"
  have "list_all (unhealthy_round cfg ?a) (take j rounds)"
    using bad by (auto simp: list_all_iff dest: in_set_takeD)
  moreover have "int (length (take j rounds)) < consecutive_failures_threshold (THRESHOLDS cfg)"
    using j len by simp
  ultimately have b: "manager ?b = manager s" "world ?b = world s" "failures_of ?b ?a = int j"
    using rounds_before_gate [of cfg s "take j rounds" env] fresh j by simp_all
  have "unhealthy_round cfg ?a (rounds ! j)"
    using bad j by (simp add: list_all_length)
  then have c: "consecutive_failures (monitor ?t) ?a = Some (int j + 1)"
    using tracked_unhealthy [of cfg ?a "rounds ! j" ?b] b by simp
  have g: "failure_gate cfg ?t \<longleftrightarrow> j + 1 = length rounds"
    using c j len by (auto simp add: failure_gate_def fold_track_manager b)
  show "manager ?b = manager s \<and> world ?b = world s \<and> failures_of ?t ?a = int j + 1
        \<and> process_metrics cfg env (rounds ! j) ?b
             = (if j + 1 = length rounds then evaluate_and_switch cfg env (rounds ! j) ?t else ?t)"
    using b c g by (simp add: process_metrics_def Let_def failures_of_def)
next
  fix m and t :: "'a system"
  assume "\<not> failure_gate cfg (fold (track_failures cfg) m t)"
  then show "process_metrics cfg env m t = fold (track_failures cfg) m t
           \<and> manager (process_metrics cfg env m t) = manager t
           \<and> world (process_metrics cfg env m t) = world t"
    by (simp add: process_metrics_below_gate fold_track_manager fold_track_world)
qed

theorem gate_trips_on_round_N_witness:
  "list_all (unhealthy_round router_config ''ether1'')
      [primary_down_round, primary_down_round, primary_down_round]
   \<and> process_metrics router_config sim_env primary_down_round
        (after_rounds router_config sim_env [primary_down_round]
           (sim_system ''ether1'' None 0 (sim_world0 1000 [])))
      = fold (track_failures router_config) primary_down_round
          (after_rounds router_config sim_env [primary_down_round]
             (sim_system ''ether1'' None 0 (sim_world0 1000 [])))
   \<and> process_metrics router_config sim_env primary_down_round
        (after_rounds router_config sim_env [primary_down_round, primary_down_round]
           (sim_system ''ether1'' None 0 (sim_world0 1000 [])))
      = evaluate_and_switch router_config sim_env primary_down_round
          (fold (track_failures router_config) primary_down_round
             (after_rounds router_config sim_env [primary_down_round, primary_down_round]
                (sim_system ''ether1'' None 0 (sim_world0 1000 []))))
   \<and> sim_updates (world (after_rounds router_config sim_env
          [primary_down_round, primary_down_round]
          (sim_system ''ether1'' None 0 (sim_world0 1000 [])))) = []
   \<and> current_active (manager (after_rounds router_config sim_env
          [primary_down_round, primary_down_round]
          (sim_system ''ether1'' None 0 (sim_world0 1000 [])))) = ''ether1''
   \<and> current_active (manager (after_rounds router_config sim_env
          [primary_down_round, primary_down_round, primary_down_round]
          (sim_system ''ether1'' None 0 (sim_world0 1000 [])))) = ''ether2''"
proof -
  let ?s = "sim_system ''ether1'' None 0 (sim_world0 1000 [])"
  let ?r = "[primary_down_round, primary_down_round, primary_down_round]"
  have a: "current_active (manager ?s) = ''ether1''"
    by (simp add: sim_defs Let_def)
  have h1: "list_all (unhealthy_round router_config (current_active (manager ?s))) ?r"
    by (simp add: a) (simp add: unhealthy_round_def sim_defs is_interface_healthy_def)
  have h2: "failures_of ?s (current_active (manager ?s)) = 0"
    by (simp add: failures_of_def sim_defs Let_def)
  have h3: "int (length ?r) = consecutive_failures_threshold (THRESHOLDS router_config)"
    by (simp add: router_config_def)
  note g = gate_trips_on_round_N [OF h1 h2 h3, of sim_env, THEN conjunct1, rule_format]
  have g1: "process_metrics router_config sim_env primary_down_round
        (after_rounds router_config sim_env [primary_down_round] ?s)
      = fold (track_failures router_config) primary_down_round
          (after_rounds router_config sim_env [primary_down_round] ?s)"
    using g [of 1] by simp
  have g2: "process_metrics router_config sim_env primary_down_round
        (after_rounds router_config sim_env [primary_down_round, primary_down_round] ?s)
      = evaluate_and_switch router_config sim_env primary_down_round
          (fold (track_failures router_config) primary_down_round
             (after_rounds router_config sim_env [primary_down_round, primary_down_round] ?s))"
    using g [of 2] by simp
  have g3: "world (after_rounds router_config sim_env [primary_down_round, primary_down_round] ?s)
              = world ?s"
       "manager (after_rounds router_config sim_env [primary_down_round, primary_down_round] ?s)
              = manager ?s"
    using g [of 2] by simp_all
  have e: "current_active (manager (after_rounds router_config sim_env ?r ?s)) = ''ether2''"
    by (simp add: after_rounds_def sim_defs run_defs Let_def)
  have w: "sim_updates (world ?s) = []" by (simp add: sim_defs Let_def)
  show ?thesis using h1 g1 g2 g3 e a w by simp
qed

subsection \<open>Both interfaces unhealthy\<close>

lemma track_failures_logged:
  "\<exists>e. logged (track_failures cfg item s) = logged s @ e"
  by (cases item) (simp add: track_failures_def set_failures_def log_record_def Let_def)

lemma fold_track_logged: "\<exists>e. logged (fold (track_failures cfg) m s) = logged s @ e"
proof (induction m arbitrary: s)
  case Nil
  then show ?case by simp
next
  case (Cons item m)
  obtain e1 where e1: "logged (track_failures cfg item s) = logged s @ e1"
    using track_failures_logged by blast
  obtain e2 where "logged (fold (track_failures cfg) m (track_failures cfg item s))
                     = logged (track_failures cfg item s) @ e2"
    using Cons.IH by blast
  with e1 show ?case by simp
qed

lemma track_failures_warns:
  "\<not> is_interface_healthy (THRESHOLDS cfg) (Some x) \<Longrightarrow>
   \<exists>n. logged (track_failures cfg (i, x) s)
         = logged s @ [(WARNING, Interface_failure i n (latency x) (packet_loss x))]"
  by (simp add: track_failures_def set_failures_def log_record_def Let_def)

lemma fold_track_warns:
  assumes "(i, x) \<in> set m" and "\<not> is_interface_healthy (THRESHOLDS cfg) (Some x)"
  shows "\<exists>e. logged (fold (track_failures cfg) m s) = logged s @ e
             \<and> (\<exists>msg. (WARNING, msg) \<in> set e)"
  using assms
proof (induction m arbitrary: s)
  case Nil
  then show ?case by simp
next
  case (Cons item m)
  let ?s1 = "track_failures cfg item s"
  show ?case
  proof (cases "item = (i, x)")
    case True
    obtain n where w: "logged ?s1 = logged s @ [(WARNING, Interface_failure i n (latency x) (packet_loss x))]"
      using track_failures_warns [OF Cons.prems(2), of i s] True by blast
    obtain e2 where "logged (fold (track_failures cfg) m ?s1) = logged ?s1 @ e2"
      using fold_track_logged by blast
    with w show ?thesis by auto
  next
    case False
    with Cons.prems have "(i, x) \<in> set m" by simp
    from Cons.IH [OF this Cons.prems(2), of ?s1]
    obtain e2 msg where e2: "logged (fold (track_failures cfg) m ?s1) = logged ?s1 @ e2"
      and msg: "(WARNING, msg) \<in> set e2" by blast
    obtain e1 where "logged ?s1 = logged s @ e1" using track_failures_logged by blast
    with e2 msg show ?thesis by auto
  qed
qed

text \<open>
  C8. When primary and secondary are both unhealthy and one of them is active,
  \<open>evaluate_failover_need\<close> returns no failover with the current interface as target and
  logs the warning that both are down; a round of \<open>process_metrics\<close> leaves the manager
  (so \<open>current_active\<close>) and the world (so the router) as they were, and logs a warning
  whenever the gate has tripped or the active interface is among the metrics.
\<close>

theorem both_unhealthy_no_switch:
  assumes p: "\<not> is_interface_healthy (THRESHOLDS cfg) (map_of m (primary_interface (manager s)))"
    and q: "\<not> is_interface_healthy (THRESHOLDS cfg) (map_of m (secondary_interface (manager s)))"
    and a: "current_active (manager s) = primary_interface (manager s)
            \<or> current_active (manager s) = secondary_interface (manager s)"
  shows "evaluate_failover_need cfg env m s
           = ((False, current_active (manager s)), log_record WARNING Both_down s)
       \<and> manager (process_metrics cfg env m s) = manager s
       \<and> world (process_metrics cfg env m s) = world s
       \<and> (\<exists>e. logged (process_metrics cfg env m s) = logged s @ e
              \<and> (failure_gate cfg (fold (track_failures cfg) m s)
                   \<or> current_active (manager s) \<in> fst ` set m
                 \<longrightarrow> (\<exists>msg. (WARNING, msg) \<in> set e)))"
proof -
  have ev: "evaluate_failover_need cfg env m t
              = ((False, current_active (manager t)), log_record WARNING Both_down t)"
    if "manager t = manager s" for t :: "'a system"
    using p q a that by (auto simp add: evaluate_failover_need_def Let_def)
  let ?t = "fold (track_failures cfg) m s"
  have mt: "manager ?t = manager s" by (rule fold_track_manager)
  have wt: "world ?t = world s" by (rule fold_track_world)
  have pm: "process_metrics cfg env m s
              = (if failure_gate cfg ?t then log_record WARNING Both_down ?t else ?t)"
    using ev [OF mt] by (simp add: process_metrics_def evaluate_and_switch_def Let_def)
  obtain e where e: "logged ?t = logged s @ e" using fold_track_logged by blast
  have lg: "\<exists>e. logged (process_metrics cfg env m s) = logged s @ e
              \<and> (failure_gate cfg ?t \<or> current_active (manager s) \<in> fst ` set m
                 \<longrightarrow> (\<exists>msg. (WARNING, msg) \<in> set e))"
  proof (cases "failure_gate cfg ?t")
    case True
    then have "logged (process_metrics cfg env m s) = logged s @ (e @ [(WARNING, Both_down)])"
      using pm e by (simp add: log_record_def)
    moreover have "(WARNING, Both_down) \<in> set (e @ [(WARNING, Both_down)])" by simp
    ultimately show ?thesis by blast
  next
    case False
    show ?thesis
    proof (cases "current_active (manager s) \<in> fst ` set m")
      case True
      then obtain x where x: "map_of m (current_active (manager s)) = Some x"
        by (metis (no_types, lifting) domD dom_map_of_conv_image_fst)
      then have "(current_active (manager s), x) \<in> set m" by (rule map_of_SomeD)
      moreover have "\<not> is_interface_healthy (THRESHOLDS cfg) (Some x)"
        using a p q x by auto
      ultimately obtain e' msg where "logged ?t = logged s @ e'" "(WARNING, msg) \<in> set e'"
        using fold_track_warns by blast
      then show ?thesis using pm False by auto
    next
      case notin: False
      then show ?thesis using pm False e by auto
    qed
  qed
  show ?thesis using ev [of s] pm mt wt lg by (simp add: log_record_def)
qed

theorem both_unhealthy_no_switch_witness:
  "fst (evaluate_failover_need router_config sim_env both_down_round
          (sim_system ''ether2'' (Some 1000) 3 (sim_world0 1061 []))) = (False, ''ether2'')
   \<and> logged (snd (evaluate_failover_need router_config sim_env both_down_round
          (sim_system ''ether2'' (Some 1000) 3 (sim_world0 1061 [])))) = [(WARNING, Both_down)]
   \<and> current_active (manager (process_metrics router_config sim_env both_down_round
          (sim_system ''ether2'' (Some 1000) 3 (sim_world0 1061 [])))) = ''ether2''
   \<and> sim_updates (world (process_metrics router_config sim_env both_down_round
          (sim_system ''ether2'' (Some 1000) 3 (sim_world0 1061 [])))) = []
   \<and> current_active (manager (process_metrics router_config sim_env both_down_round
          (sim_system ''ether1'' None 3 (sim_world0 1061 [])))) = ''ether1''"
proof -
  let ?s = "sim_system ''ether2'' (Some 1000) 3 (sim_world0 1061 [])"
  let ?s1 = "sim_system ''ether1'' None 3 (sim_world0 1061 [])"
  have m: "manager ?s = \<lparr>primary_interface = ''ether1'', secondary_interface = ''ether2'',
              current_active = ''ether2'', failover_timestamp = Some 1000\<rparr>"
    by (simp add: sim_defs Let_def)
  have m1: "manager ?s1 = \<lparr>primary_interface = ''ether1'', secondary_interface = ''ether2'',
              current_active = ''ether1'', failover_timestamp = None\<rparr>"
    by (simp add: sim_defs Let_def)
  have p: "\<not> is_interface_healthy (THRESHOLDS router_config)
               (map_of both_down_round (primary_interface (manager ?s)))"
    by (simp add: m) (simp add: sim_defs is_interface_healthy_def)
  have q: "\<not> is_interface_healthy (THRESHOLDS router_config)
               (map_of both_down_round (secondary_interface (manager ?s)))"
    by (simp add: m) (simp add: sim_defs is_interface_healthy_def)
  have a: "current_active (manager ?s) = primary_interface (manager ?s)
         \<or> current_active (manager ?s) = secondary_interface (manager ?s)"
    by (simp add: m)
  have p1: "\<not> is_interface_healthy (THRESHOLDS router_config)
               (map_of both_down_round (primary_interface (manager ?s1)))"
    by (simp add: m1) (simp add: sim_defs is_interface_healthy_def)
  have q1: "\<not> is_interface_healthy (THRESHOLDS router_config)
               (map_of both_down_round (secondary_interface (manager ?s1)))"
    by (simp add: m1) (simp add: sim_defs is_interface_healthy_def)
  have a1: "current_active (manager ?s1) = primary_interface (manager ?s1)
         \<or> current_active (manager ?s1) = secondary_interface (manager ?s1)"
    by (simp add: m1)
  have w: "sim_updates (world ?s) = []" "logged ?s = []" by (simp_all add: sim_defs Let_def)
  from both_unhealthy_no_switch [OF p q a, of sim_env]
       both_unhealthy_no_switch [OF p1 q1 a1, of sim_env] m m1 w
  show ?thesis by (simp add: log_record_def)
qed

subsection \<open>A failed switch, and the switch back\<close>

text \<open>
  C2. The claim is that a failed switch leaves the failure counter of the active interface
  alone, so that the gate stays tripped. The code sets the counter to 0 after every call of
  \<open>perform_failover\<close>: with the third failure of \<open>ether1\<close> in a row and a router that
  refuses the priority update for \<open>ether2\<close>, the round attempts the switch, stays on
  \<open>ether1\<close>, and ends with the counter of \<open>ether1\<close> at 0 and the gate open; the next
  round with \<open>ether1\<close> still down makes no further attempt.
\<close>

theorem failed_switch_resets_counter:
  "current_active (manager (process_metrics router_config sim_env primary_down_round
            (sim_system ''ether1'' None 2 (sim_world0 1000 [''ether2''])))) = ''ether1''
   \<and> sim_updates (world (process_metrics router_config sim_env primary_down_round
            (sim_system ''ether1'' None 2 (sim_world0 1000 [''ether2'']))))
       = [(''ether1'', 10), (''ether2'', 1)]
   \<and> consecutive_failures (monitor (process_metrics router_config sim_env primary_down_round
            (sim_system ''ether1'' None 2 (sim_world0 1000 [''ether2''])))) ''ether1'' = Some 0
   \<and> \<not> failure_gate router_config (process_metrics router_config sim_env primary_down_round
            (sim_system ''ether1'' None 2 (sim_world0 1000 [''ether2''])))
   \<and> sim_updates (world (after_rounds router_config sim_env
            [primary_down_round, primary_down_round]
            (sim_system ''ether1'' None 2 (sim_world0 1000 [''ether2'']))))
       = [(''ether1'', 10), (''ether2'', 1)]"
  by (simp add: sim_defs run_defs after_rounds_def Let_def)

text \<open>A round in which the active interface is healthy never passes the gate, at any
  time: its counter is 0 after the first loop (or what it was, if it was negative).\<close>

lemma healthy_active_not_evaluated:
  assumes "distinct (map fst m)"
    and "map_of m (current_active (manager s)) = Some x"
    and "is_interface_healthy (THRESHOLDS cfg) (Some x)"
    and "0 < consecutive_failures_threshold (THRESHOLDS cfg)"
  shows "process_metrics cfg env m s = fold (track_failures cfg) m s
       \<and> manager (process_metrics cfg env m s) = manager s
       \<and> world (process_metrics cfg env m s) = world s"
proof -
  have "consecutive_failures (monitor (fold (track_failures cfg) m s)) (current_active (manager s))
          = Some (if failures_of s (current_active (manager s)) > 0 then 0
                  else failures_of s (current_active (manager s)))"
    using fold_track_counter [OF assms(1,2), of cfg s] assms(3) by simp
  then have "\<not> failure_gate cfg (fold (track_failures cfg) m s)"
    using assms(4) by (simp add: failure_gate_def fold_track_manager)
  then show ?thesis
    by (simp add: process_metrics_below_gate fold_track_manager fold_track_world)
qed

text \<open>
  C1. The claim is that with the secondary active and both interfaces healthy, a round
  switches back to the primary once more than 60 s have passed since the failover. At 30 s
  neither \<open>evaluate_failover_need\<close> nor the round switches. At 61 s
  \<open>evaluate_failover_need\<close> asks for the switch back to \<open>ether1\<close>, but the round of
  \<open>process_metrics\<close> does not call it, because the failure counter of the healthy active
  interface is 0: the system stays on \<open>ether2\<close> and the router receives no update.
\<close>

theorem switch_back_never_reached:
  "fst (evaluate_failover_need router_config sim_env both_good_round
          (sim_system ''ether2'' (Some 1000) 0 (sim_world0 1030 []))) = (False, ''ether2'')
   \<and> current_active (manager (process_metrics router_config sim_env both_good_round
          (sim_system ''ether2'' (Some 1000) 0 (sim_world0 1030 [])))) = ''ether2''
   \<and> fst (evaluate_failover_need router_config sim_env both_good_round
          (sim_system ''ether2'' (Some 1000) 0 (sim_world0 1061 []))) = (True, ''ether1'')
   \<and> current_active (manager (process_metrics router_config sim_env both_good_round
          (sim_system ''ether2'' (Some 1000) 0 (sim_world0 1061 [])))) = ''ether2''
   \<and> sim_updates (world (process_metrics router_config sim_env both_good_round
          (sim_system ''ether2'' (Some 1000) 0 (sim_world0 1061 [])))) = []"
  by (simp add: sim_defs run_defs Let_def)

section \<open>Collection: \<open>collect_metrics\<close>\<close>

lemma get_interface_metrics_objects:
  "manager (snd (get_interface_metrics cfg env name s)) = manager s
   \<and> monitor (snd (get_interface_metrics cfg env name s)) = monitor s"
  by (simp add: get_interface_metrics_def log_record_def Let_def split: prod.splits)

lemma check_interfaces_objects:
  "manager (snd (check_interfaces cfg env s)) = manager s
   \<and> monitor (snd (check_interfaces cfg env s)) = monitor s"
proof -
  obtain p s1 where p: "get_interface_metrics cfg env (primary_interface (manager s)) s = (p, s1)"
    by (cases "get_interface_metrics cfg env (primary_interface (manager s)) s")
  obtain q s2 where q: "get_interface_metrics cfg env (secondary_interface (manager s1)) s1 = (q, s2)"
    by (cases "get_interface_metrics cfg env (secondary_interface (manager s1)) s1")
  have "manager s1 = manager s \<and> monitor s1 = monitor s"
    using get_interface_metrics_objects [of cfg env "primary_interface (manager s)" s] p by simp
  moreover have "manager s2 = manager s1 \<and> monitor s2 = monitor s1"
    using get_interface_metrics_objects [of cfg env "secondary_interface (manager s1)" s1] q
    by simp
  ultimately show ?thesis using p q by (simp add: check_interfaces_def)
qed

lemma check_interfaces_keys:
  "distinct (map fst (fst (check_interfaces cfg env s)))
   \<and> fst ` set (fst (check_interfaces cfg env s))
       = {primary_interface (manager s), secondary_interface (manager s)}"
proof -
  obtain p s1 where p: "get_interface_metrics cfg env (primary_interface (manager s)) s = (p, s1)"
    by (cases "get_interface_metrics cfg env (primary_interface (manager s)) s")
  obtain q s2 where q: "get_interface_metrics cfg env (secondary_interface (manager s1)) s1 = (q, s2)"
    by (cases "get_interface_metrics cfg env (secondary_interface (manager s1)) s1")
  have m1: "manager s1 = manager s"
    using get_interface_metrics_objects [of cfg env "primary_interface (manager s)" s] p by simp
  have m2: "manager s2 = manager s1"
    using get_interface_metrics_objects [of cfg env "secondary_interface (manager s1)" s1] q
    by simp
  show ?thesis using p q m1 m2 by (auto simp add: check_interfaces_def)
qed

lemma store_history_manager: "manager (store_history env ts item s) = manager s"
  by (cases item) (simp add: store_history_def log_record_def Let_def)

lemma store_history_history:
  "metrics_history (monitor (store_history env ts (i, x) s)) k =
     (if k = i
      then Some (if length (history_of s i @ [stamp ts x]) > 1000
                 then last_1000 (history_of s i @ [stamp ts x])
                 else history_of s i @ [stamp ts x])
      else metrics_history (monitor s) k)"
  by (simp add: store_history_def log_record_def Let_def history_of_def)

lemma fold_store_history_other:
  "k \<notin> fst ` set m \<Longrightarrow>
   metrics_history (monitor (fold (store_history env ts) m s)) k = metrics_history (monitor s) k"
proof (induction m arbitrary: s)
  case Nil
  then show ?case by simp
next
  case (Cons item m)
  obtain i x where item: "item = (i, x)" by (cases item)
  from Cons.prems item have "k \<noteq> i" and "k \<notin> fst ` set m" by auto
  then show ?case using Cons.IH [of "store_history env ts item s"] item
    by (simp add: store_history_history)
qed

lemma fold_store_history:
  assumes "distinct (map fst m)" and "map_of m k = Some x"
  shows "metrics_history (monitor (fold (store_history env ts) m s)) k =
     Some (if length (history_of s k @ [stamp ts x]) > 1000
           then last_1000 (history_of s k @ [stamp ts x])
           else history_of s k @ [stamp ts x])"
  using assms
proof (induction m arbitrary: s)
  case Nil
  then show ?case by simp
next
  case (Cons item m)
  obtain i y where item: "item = (i, y)" by (cases item)
  show ?case
  proof (cases "k = i")
    case True
    with Cons.prems item have "x = y" and "k \<notin> fst ` set m" by auto
    then show ?thesis using item True
      by (simp add: fold_store_history_other store_history_history)
  next
    case False
    with Cons.prems item have d: "distinct (map fst m)" and l: "map_of m k = Some x" by auto
    have "history_of (store_history env ts item s) k = history_of s k"
      using False item by (simp add: history_of_def store_history_history)
    then show ?thesis using Cons.IH [OF d l, of "store_history env ts item s"] by simp
  qed
qed

lemma drop_overflow:
  assumes "length old = n" and "0 < n"
  shows "drop (length (old @ [x]) - n) (old @ [x]) = tl old @ [x]"
proof -
  from assms obtain y ys where "old = y # ys" by (cases old) auto
  then show ?thesis using assms by simp
qed

lemma retained_cases:
  assumes "length old \<le> 1000"
  shows "(if length (old @ [x]) > 1000 then last_1000 (old @ [x]) else old @ [x])
         = (if length old < 1000 then old @ [x] else tl old @ [x])"
proof (cases "length old < 1000")
  case True
  then show ?thesis by simp
next
  case False
  with assms have l: "length old = 1000" by simp
  have "last_1000 (old @ [x]) = tl old @ [x]"
    unfolding last_1000_def by (rule drop_overflow [OF l]) simp
  then show ?thesis using False l by simp
qed

lemma collect_metrics_history_step:
  assumes c: "collect_metrics cfg env s = (m, s')"
    and inv: "\<forall>i h. metrics_history (monitor s) i = Some h \<longrightarrow> length h \<le> 1000"
  shows "(\<forall>i h. metrics_history (monitor s') i = Some h \<longrightarrow> length h \<le> 1000)
       \<and> (\<forall>i x. map_of m i = Some x \<longrightarrow>
             metrics_history (monitor s') i
               = Some (if length (history_of s i) < 1000 then history_of s i @ [x]
                       else tl (history_of s i) @ [x]))
       \<and> (\<forall>i. map_of m i = None \<longrightarrow>
             metrics_history (monitor s') i = metrics_history (monitor s) i)
       \<and> fst ` set m = {primary_interface (manager s), secondary_interface (manager s)}"
proof -
  obtain raw s1 where ci: "check_interfaces cfg env s = (raw, s1)"
    by (cases "check_interfaces cfg env s")
  obtain ts w1 where tt: "time_time env (world s1) = (ts, w1)"
    by (cases "time_time env (world s1)")
  let ?s2 = "s1\<lparr>world := w1\<rparr>"
  have m: "m = map (\<lambda>(iface, x). (iface, stamp ts x)) raw"
    and s': "s' = fold (store_history env ts) raw ?s2"
    using c ci tt by (simp_all add: collect_metrics_def)
  have mon: "monitor ?s2 = monitor s"
    using check_interfaces_objects [of cfg env s] ci by simp
  then have hist: "history_of ?s2 i = history_of s i" for i
    by (simp add: history_of_def)
  have d: "distinct (map fst raw)"
    and keys: "fst ` set raw = {primary_interface (manager s), secondary_interface (manager s)}"
    using check_interfaces_keys [of cfg env s] ci by simp_all
  have len: "length (history_of s i) \<le> 1000" for i
    using inv by (simp add: history_of_def split: option.splits)
  have lookup: "map_of m i = map_option (stamp ts) (map_of raw i)" for i
    unfolding m by (simp add: map_of_map)
  have new: "metrics_history (monitor s') i
               = Some (if length (history_of s i) < 1000 then history_of s i @ [x]
                       else tl (history_of s i) @ [x])"
    if "map_of m i = Some x" for i x
  proof -
    from that lookup obtain y where y: "map_of raw i = Some y" and x: "x = stamp ts y"
      by auto
    have "metrics_history (monitor s') i
            = Some (if length (history_of ?s2 i @ [stamp ts y]) > 1000
                    then last_1000 (history_of ?s2 i @ [stamp ts y])
                    else history_of ?s2 i @ [stamp ts y])"
      unfolding s' by (rule fold_store_history [OF d y])
    also have "\<dots> = Some (if length (history_of s i @ [x]) > 1000
                    then last_1000 (history_of s i @ [x])
                    else history_of s i @ [x])"
      unfolding hist x ..
    also have "\<dots> = Some (if length (history_of s i) < 1000 then history_of s i @ [x]
                       else tl (history_of s i) @ [x])"
      by (simp only: retained_cases [OF len])
    finally show ?thesis .
  qed
  have old: "metrics_history (monitor s') i = metrics_history (monitor s) i"
    if "map_of m i = None" for i
  proof -
    from that lookup have "map_of raw i = None" by simp
    then have "i \<notin> fst ` set raw" by (simp add: map_of_eq_None_iff)
    then show ?thesis using fold_store_history_other [of i raw env ts ?s2] mon
      by (simp add: s')
  qed
  have bound: "length h \<le> 1000" if h: "metrics_history (monitor s') i = Some h" for i h
  proof (cases "map_of m i")
    case None
    then show ?thesis using old h inv by simp
  next
    case (Some x)
    have "length (tl (history_of s i)) \<le> 999" using len [of i] by simp
    then show ?thesis using new [OF Some] h by (auto split: if_splits)
  qed
  have "fst ` set m = fst ` set raw" unfolding m by force
  then have k: "fst ` set m = {primary_interface (manager s), secondary_interface (manager s)}"
    using keys by simp
  show ?thesis
  proof (intro conjI allI impI)
    fix i h assume "metrics_history (monitor s') i = Some h"
    then show "length h \<le> 1000" by (rule bound)
  next
    fix i x assume "map_of m i = Some x"
    then show "metrics_history (monitor s') i
               = Some (if length (history_of s i) < 1000 then history_of s i @ [x]
                       else tl (history_of s i) @ [x])" by (rule new)
  next
    fix i assume "map_of m i = None"
    then show "metrics_history (monitor s') i = metrics_history (monitor s) i" by (rule old)
  next
    show "fst ` set m = {primary_interface (manager s), secondary_interface (manager s)}"
      by (rule k)
  qed
qed

text \<open>The bound is an invariant of the monitoring loop: a new monitor has empty histories,
  and \<open>process_metrics\<close> does not touch the histories.\<close>

lemma init_system_history_bounded:
  "\<forall>i h. metrics_history (monitor (init_system cfg p w)) i = Some h \<longrightarrow> length h \<le> 1000"
  by (simp add: init_system_def)

lemma track_failures_history:
  "metrics_history (monitor (track_failures cfg item s)) = metrics_history (monitor s)"
  by (cases item) (simp add: track_failures_def set_failures_def log_record_def Let_def)

lemma fold_track_history:
  "metrics_history (monitor (fold (track_failures cfg) m s)) = metrics_history (monitor s)"
  by (induction m arbitrary: s) (simp_all add: track_failures_history)

lemma evaluate_failover_need_monitor:
  "monitor (snd (evaluate_failover_need cfg env m s)) = monitor s"
  by (simp add: evaluate_failover_need_def log_record_def Let_def
        split: option.splits prod.splits)

lemma perform_failover_monitor:
  "monitor (snd (perform_failover env a b s)) = monitor s"
  by (simp add: perform_failover_def log_record_def Let_def split: prod.splits)

lemma process_metrics_history:
  "metrics_history (monitor (process_metrics cfg env m s)) = metrics_history (monitor s)"
proof -
  let ?t = "fold (track_failures cfg) m s"
  obtain need target s1 where ev: "evaluate_failover_need cfg env m ?t = ((need, target), s1)"
    by (cases "evaluate_failover_need cfg env m ?t") auto
  then have "monitor s1 = monitor ?t"
    using evaluate_failover_need_monitor [of cfg env m ?t] by simp
  then have "metrics_history (monitor (evaluate_and_switch cfg env m ?t))
               = metrics_history (monitor ?t)"
    using ev by (simp add: evaluate_and_switch_def set_failures_def perform_failover_monitor Let_def)
  then show ?thesis by (simp add: process_metrics_def Let_def fold_track_history)
qed

lemma monitoring_round_history_bounded:
  assumes "\<forall>i h. metrics_history (monitor s) i = Some h \<longrightarrow> length h \<le> 1000"
  shows "\<forall>i h. metrics_history (monitor (monitoring_round cfg env s)) i = Some h
           \<longrightarrow> length h \<le> 1000"
proof -
  obtain m s1 where c: "collect_metrics cfg env s = (m, s1)"
    by (cases "collect_metrics cfg env s")
  from collect_metrics_history_step [OF c assms]
  have "\<forall>i h. metrics_history (monitor s1) i = Some h \<longrightarrow> length h \<le> 1000" by blast
  then show ?thesis using c by (simp add: monitoring_round_def process_metrics_history)
qed

text \<open>
  C9. Let every history hold at most 1000 entries before a call of \<open>collect_metrics\<close>
  (as the empty histories of a new monitor do). After the call every history still holds
  at most 1000 entries. For each interface of the round (primary and secondary), the new
  history is the old one with the round's metrics appended at the end, and when the old
  history was full (1000 entries, so that this is the 1001st) its first, oldest entry is
  dropped and nothing else: 1000 entries remain, the most recent last. Other histories
  are unchanged.
\<close>

theorem collect_metrics_history_bound:
  assumes c: "collect_metrics cfg env s = (m, s')"
    and inv: "\<forall>i h. metrics_history (monitor s) i = Some h \<longrightarrow> length h \<le> 1000"
  shows "(\<forall>i h. metrics_history (monitor s') i = Some h \<longrightarrow> length h \<le> 1000)
       \<and> (\<forall>i x. map_of m i = Some x \<longrightarrow>
             metrics_history (monitor s') i
               = Some (if length (history_of s i) < 1000 then history_of s i @ [x]
                       else tl (history_of s i) @ [x]))
       \<and> (\<forall>i. map_of m i = None \<longrightarrow>
             metrics_history (monitor s') i = metrics_history (monitor s) i)
       \<and> fst ` set m = {primary_interface (manager s), secondary_interface (manager s)}"
  using c inv by (rule collect_metrics_history_step)

lemmas collect_defs = collect_metrics_def check_interfaces_def get_interface_metrics_def
  not_running_def check_interface_connectivity_def py_mean_def py_sum_def stamp_def
  log_record_def

lemma sim_collect_ether1:
  "map_of (fst (collect_metrics router_config sim_env sim_full_history)) ''ether1''
     = Some \<lparr>interface = ''ether1'', status = ''up'', latency = PInf, packet_loss = Fin 50,
             timestamp = Some 1000\<rparr>"
  by (simp add: collect_defs sim_defs sim_full_history_def Let_def)

lemma sim_collect_ether2:
  "map_of (fst (collect_metrics router_config sim_env sim_full_history)) ''ether2''
     = Some \<lparr>interface = ''ether2'', status = ''up'', latency = Fin 20, packet_loss = Fin 0,
             timestamp = Some 1000\<rparr>"
  by (simp add: collect_defs sim_defs sim_full_history_def Let_def)

theorem collect_metrics_history_bound_witness:
  "length (history_of sim_full_history ''ether1'') = 1000
   \<and> metrics_history (monitor (snd (collect_metrics router_config sim_env sim_full_history)))
        ''ether1''
      = Some (replicate 999 (good_metrics ''ether1'')
              @ [\<lparr>interface = ''ether1'', status = ''up'', latency = PInf,
                   packet_loss = Fin 50, timestamp = Some 1000\<rparr>])
   \<and> metrics_history (monitor (snd (collect_metrics router_config sim_env sim_full_history)))
        ''ether2''
      = Some [\<lparr>interface = ''ether2'', status = ''up'', latency = Fin 20,
                packet_loss = Fin 0, timestamp = Some 1000\<rparr>]"
proof -
  let ?r = "collect_metrics router_config sim_env sim_full_history"
  have c: "?r = (fst ?r, snd ?r)" by simp
  have h1: "history_of sim_full_history ''ether1'' = replicate 1000 (good_metrics ''ether1'')"
    and h2: "history_of sim_full_history ''ether2'' = []"
    by (simp_all add: history_of_def sim_full_history_def sim_defs Let_def)
  have inv: "\<forall>i h. metrics_history (monitor sim_full_history) i = Some h \<longrightarrow> length h \<le> 1000"
    by (simp add: sim_full_history_def sim_defs Let_def)
  note t = collect_metrics_history_bound [OF c inv, THEN conjunct2, THEN conjunct1, rule_format]
  show ?thesis
    using t [OF sim_collect_ether1] t [OF sim_collect_ether2] h1 h2 by simp
qed


section \<open>Aggregation: \<open>get_interface_metrics\<close>\<close>

lemma float_times_length:
  "float_times replies = Some ts \<Longrightarrow> length (filter has_time replies) = length ts"
  by (induction replies arbitrary: ts rule: float_times.induct) (auto split: option.splits)

lemma ping_targets_results:
  "ping_targets env name targets (ls, ps) w =
     ((ls @ map avg_latency (fst (ping_results env name targets w)),
       ps @ map pr_packet_loss (fst (ping_results env name targets w))),
      snd (ping_results env name targets w))"
proof (induction targets arbitrary: ls ps w)
  case Nil
  then show ?case by simp
next
  case (Cons t targets)
  obtain r w1 where r: "check_interface_connectivity env name t 5 w = (r, w1)"
    by (cases "check_interface_connectivity env name t 5 w")
  show ?case
  proof (cases r)
    case None
    with r Cons.IH [of ls ps w1] show ?thesis by (simp split: prod.splits)
  next
    case (Some x)
    with r Cons.IH [of "ls @ [avg_latency x]" "ps @ [pr_packet_loss x]" w1] show ?thesis
      by (simp split: prod.splits)
  qed
qed

lemma foldl_fl_add_PInf:
  assumes "\<forall>x\<in>set xs. x = PInf \<or> (\<exists>a. x = Fin a)"
  shows "foldl fl_add PInf xs = PInf"
  using assms by (induction xs) auto

lemma foldl_fl_add_reaches_PInf:
  assumes "PInf \<in> set xs" and "\<forall>x\<in>set xs. x = PInf \<or> (\<exists>a. x = Fin a)"
  shows "foldl fl_add (Fin c) xs = PInf"
  using assms
proof (induction xs arbitrary: c)
  case Nil
  then show ?case by simp
next
  case (Cons x xs)
  show ?case
  proof (cases x)
    case (Fin a)
    with Cons.prems have "PInf \<in> set xs" by auto
    with Cons Fin show ?thesis by simp
  next
    case PInf
    with Cons.prems show ?thesis by (simp add: foldl_fl_add_PInf)
  next
    case NInf
    with Cons.prems show ?thesis by auto
  next
    case NaN
    with Cons.prems show ?thesis by auto
  qed
qed

lemma py_mean_PInf:
  assumes "PInf \<in> set xs" and "\<forall>x\<in>set xs. x = PInf \<or> (\<exists>a. x = Fin a)"
  shows "py_mean xs d = PInf"
proof -
  from assms(1) have "xs \<noteq> []" by auto
  then show ?thesis
    using foldl_fl_add_reaches_PInf [OF assms] by (simp add: py_mean_def py_sum_def)
qed

text \<open>
  C6, as amended. For an interface that is up, let \<open>rs\<close> be the results of the ping calls
  that returned a result, in target order. The aggregate latency is the arithmetic mean of
  their average latencies and the aggregate packet loss is the arithmetic mean of their
  packet-loss percentages; with no result at all, latency is \<open>+inf\<close> and packet loss is 100.
  Only a call that fails (returns \<open>None\<close>) is left out of the means. A call that returns
  replies of which none was successful yields a result with average latency \<open>+inf\<close>; it
  is counted, and makes the aggregate latency \<open>+inf\<close> (the other averages being finite or
  \<open>+inf\<close>).
\<close>

theorem get_interface_metrics_aggregates:
  assumes up: "\<not> not_running (fst (get_interface_status env name (world s)))"
    and rs: "rs = fst (ping_results env name (PING_TARGETS cfg)
                         (snd (get_interface_status env name (world s))))"
    and r: "r = fst (get_interface_metrics cfg env name s)"
  shows "status r = ''up''
       \<and> latency r = py_mean (map avg_latency rs) PInf
       \<and> packet_loss r = py_mean (map pr_packet_loss rs) (Fin 100)
       \<and> (rs = [] \<longrightarrow> latency r = PInf \<and> packet_loss r = Fin 100)
       \<and> ((\<exists>x\<in>set rs. avg_latency x = PInf)
            \<and> (\<forall>x\<in>set rs. avg_latency x = PInf \<or> (\<exists>a. avg_latency x = Fin a))
          \<longrightarrow> latency r = PInf)
       \<and> (\<forall>t w w1. api_ping env t name 5 w = (None, w1) \<longrightarrow>
             check_interface_connectivity env name t 5 w = (None, w1))
       \<and> (\<forall>t w w1 replies ts.
             api_ping env t name 5 w = (Some replies, w1) \<and> float_times replies = Some ts \<longrightarrow>
             (\<exists>x. check_interface_connectivity env name t 5 w = (Some x, w1)
                  \<and> received x = int (length ts)
                  \<and> avg_latency x = py_mean ts PInf
                  \<and> (ts = [] \<longrightarrow> avg_latency x = PInf)
                  \<and> pr_packet_loss x = Fin (real_of_int (5 - int (length ts)) / 5 * 100)))"
proof -
  have lat: "latency r = py_mean (map avg_latency rs) PInf"
    and loss: "packet_loss r = py_mean (map pr_packet_loss rs) (Fin 100)"
    and st: "status r = ''up''"
  proof -
    obtain st w1 where g: "get_interface_status env name (world s) = (st, w1)"
      by (cases "get_interface_status env name (world s)")
    with up have n: "\<not> not_running st" by simp
    obtain now w3 where t: "time_time env (snd (ping_results env name (PING_TARGETS cfg) w1))
                              = (now, w3)"
      by (cases "time_time env (snd (ping_results env name (PING_TARGETS cfg) w1))")
    have "fst (get_interface_metrics cfg env name s)
            = \<lparr>interface = name, status = ''up'',
               latency = py_mean (map avg_latency (fst (ping_results env name (PING_TARGETS cfg) w1))) PInf,
               packet_loss = py_mean (map pr_packet_loss (fst (ping_results env name (PING_TARGETS cfg) w1))) (Fin 100),
               timestamp = Some now\<rparr>"
      using g n t by (simp add: get_interface_metrics_def ping_targets_results Let_def)
    then show "latency r = py_mean (map avg_latency rs) PInf"
      and "packet_loss r = py_mean (map pr_packet_loss rs) (Fin 100)"
      and "status r = ''up''"
      unfolding r rs g by simp_all
  qed
  have empty: "rs = [] \<longrightarrow> latency r = PInf \<and> packet_loss r = Fin 100"
    using lat loss by (simp add: py_mean_def)
  have inf: "(\<exists>x\<in>set rs. avg_latency x = PInf)
            \<and> (\<forall>x\<in>set rs. avg_latency x = PInf \<or> (\<exists>a. avg_latency x = Fin a))
          \<longrightarrow> latency r = PInf"
  proof
    assume a: "(\<exists>x\<in>set rs. avg_latency x = PInf)
            \<and> (\<forall>x\<in>set rs. avg_latency x = PInf \<or> (\<exists>a. avg_latency x = Fin a))"
    then have "PInf \<in> set (map avg_latency rs)" by force
    moreover from a have "\<forall>y\<in>set (map avg_latency rs). y = PInf \<or> (\<exists>a. y = Fin a)" by auto
    ultimately show "latency r = PInf" unfolding lat by (rule py_mean_PInf)
  qed
  have none: "\<forall>t w w1. api_ping env t name 5 w = (None, w1) \<longrightarrow>
             check_interface_connectivity env name t 5 w = (None, w1)"
    by (simp add: check_interface_connectivity_def)
  have some: "\<forall>t w w1 replies ts.
             api_ping env t name 5 w = (Some replies, w1) \<and> float_times replies = Some ts \<longrightarrow>
             (\<exists>x. check_interface_connectivity env name t 5 w = (Some x, w1)
                  \<and> received x = int (length ts)
                  \<and> avg_latency x = py_mean ts PInf
                  \<and> (ts = [] \<longrightarrow> avg_latency x = PInf)
                  \<and> pr_packet_loss x = Fin (real_of_int (5 - int (length ts)) / 5 * 100))"
    by (simp add: check_interface_connectivity_def float_times_length py_mean_def Let_def)
  show ?thesis using st lat loss empty inf none some by blast
qed

lemmas ping_defs = get_interface_metrics_def not_running_def check_interface_connectivity_def
  py_mean_def py_sum_def log_record_def spec_aggregate_latency_def

theorem get_interface_metrics_aggregates_witness:
  "\<not> not_running (fst (get_interface_status sim_env ''ether2''
        (world (sim_system ''ether1'' None 0 (sim_world0 1000 [])))))
   \<and> latency (fst (get_interface_metrics router_config sim_env ''ether2''
        (sim_system ''ether1'' None 0 (sim_world0 1000 [])))) = Fin 20
   \<and> packet_loss (fst (get_interface_metrics router_config sim_env ''ether2''
        (sim_system ''ether1'' None 0 (sim_world0 1000 [])))) = Fin 0
   \<and> latency (fst (get_interface_metrics router_config sim_env ''ether3''
        (sim_system ''ether1'' None 0 (sim_world0 1000 [])))) = PInf
   \<and> packet_loss (fst (get_interface_metrics router_config sim_env ''ether3''
        (sim_system ''ether1'' None 0 (sim_world0 1000 [])))) = Fin 100"
proof -
  let ?s = "sim_system ''ether1'' None 0 (sim_world0 1000 [])"
  have up2: "\<not> not_running (fst (get_interface_status sim_env ''ether2'' (world ?s)))"
    and up3: "\<not> not_running (fst (get_interface_status sim_env ''ether3'' (world ?s)))"
    by (simp_all add: not_running_def sim_defs Let_def)
  have r2: "map avg_latency (fst (ping_results sim_env ''ether2'' (PING_TARGETS router_config)
               (snd (get_interface_status sim_env ''ether2'' (world ?s))))) = [Fin 20, Fin 20]"
    and l2: "map pr_packet_loss (fst (ping_results sim_env ''ether2'' (PING_TARGETS router_config)
               (snd (get_interface_status sim_env ''ether2'' (world ?s))))) = [Fin 0, Fin 0]"
    and r3: "fst (ping_results sim_env ''ether3'' (PING_TARGETS router_config)
               (snd (get_interface_status sim_env ''ether3'' (world ?s)))) = []"
    by (simp_all add: ping_defs sim_defs Let_def)
  from get_interface_metrics_aggregates [OF up2 refl refl, of router_config]
       get_interface_metrics_aggregates [OF up3 refl refl, of router_config]
       up2 r2 l2 r3
  show ?thesis by (simp add: py_mean_def py_sum_def)
qed

text \<open>
  C6 as stated fails: on \<open>ether1\<close> the first target has five successful pings of 20 ms and
  the second has none. The mean over the targets with a successful ping is 20 ms, but the
  aggregate latency computed is \<open>+inf\<close>.
\<close>

theorem silent_target_not_excluded:
  "map received (fst (ping_results sim_env ''ether1'' (PING_TARGETS router_config)
       (sim_world0 1000 []))) = [5, 0]
   \<and> map avg_latency (fst (ping_results sim_env ''ether1'' (PING_TARGETS router_config)
       (sim_world0 1000 []))) = [Fin 20, PInf]
   \<and> spec_aggregate_latency (fst (ping_results sim_env ''ether1'' (PING_TARGETS router_config)
       (sim_world0 1000 []))) = Fin 20
   \<and> status (fst (get_interface_metrics router_config sim_env ''ether1''
        (sim_system ''ether1'' None 0 (sim_world0 1000 [])))) = ''up''
   \<and> latency (fst (get_interface_metrics router_config sim_env ''ether1''
        (sim_system ''ether1'' None 0 (sim_world0 1000 [])))) = PInf
   \<and> packet_loss (fst (get_interface_metrics router_config sim_env ''ether1''
        (sim_system ''ether1'' None 0 (sim_world0 1000 [])))) = Fin 50"
  by (simp add: ping_defs sim_defs Let_def)


end
